theory Spec2Isabelle
  imports Complex_Main "HOL-Library.Sublist" "HOL-Library.Multiset"
begin

section \<open>Python values used by the download scripts\<close>

text \<open>
  Strings are byte strings (\<^typ>\<open>string\<close>); the URLs and labels the scripts handle are
  ASCII. The exceptions the scripts raise are values of \<open>error\<close>; a function that may
  raise returns \<open>error + 'a\<close> with \<open>Inl\<close> for the exception.
\<close>

datatype error =
    MeterNotFound       \<comment> \<open>RuntimeError: no gas meter option in the Meter dropdown\<close>
  | CaptureMissing      \<comment> \<open>RuntimeError: no ajax URL was captured\<close>
  | ConnectionError     \<comment> \<open>raised by \<^verbatim>\<open>requests.get\<close> when no response arrives\<close>
  | HttpError int       \<comment> \<open>RuntimeError: ajax request failed: HTTP status\<close>
  | JSONDecodeError     \<comment> \<open>raised by \<^verbatim>\<open>r.json()\<close> on a body that is not JSON\<close>
  | ValueError          \<comment> \<open>raised by \<^verbatim>\<open>float()\<close> on a malformed literal\<close>

text \<open>\<^verbatim>\<open>needle in haystack\<close> on strings: \<open>needle\<close> occurs as a contiguous substring.\<close>

fun py_in :: "string \<Rightarrow> string \<Rightarrow> bool" where
  "py_in needle [] = (needle = [])"
| "py_in needle (c # cs) = (prefix needle (c # cs) \<or> py_in needle cs)"

text \<open>Truthiness of a \<^verbatim>\<open>str | None\<close> value, and \<^verbatim>\<open>a or b\<close> on such values.\<close>

fun truthy_str :: "string option \<Rightarrow> bool" where
  "truthy_str None = False"
| "truthy_str (Some s) = (s \<noteq> [])"

definition py_or :: "string option \<Rightarrow> string option \<Rightarrow> string option" where
  "py_or a b = (if truthy_str a then a else b)"

section \<open>Request observers and the capture slot\<close>

text \<open>
  Every script keeps one slot, \<^verbatim>\<open>captured = {"ajax_url": None}\<close>, that its
  \<^verbatim>\<open>on_request\<close> closure fills. The page delivers its requests to the observer one
  at a time, in order: a phase of the browser session is the list of URLs requested in it.
\<close>

record captured =
  ajax_url :: "string option"

text \<open>\<^verbatim>\<open>xcel_download_elec_daily.py\<close>, \<^verbatim>\<open>on_request\<close>.\<close>

definition on_request_elec_daily :: "captured \<Rightarrow> string \<Rightarrow> captured" where
  "on_request_elec_daily c url =
     (if py_in ''usage-history-ajax/format/json'' url
         \<and> py_in ''timePeriod=DAILY'' url
         \<and> ajax_url c = None
      then c\<lparr>ajax_url := Some url\<rparr> else c)"

text \<open>\<^verbatim>\<open>xcel_download_elec_monthly.py\<close>, \<^verbatim>\<open>on_request\<close>.\<close>

definition on_request_elec_monthly :: "captured \<Rightarrow> string \<Rightarrow> captured" where
  "on_request_elec_monthly c url =
     (if py_in ''usage-history-ajax/format/json'' url
         \<and> py_in ''timePeriod=MONTHLY'' url
         \<and> ajax_url c = None
      then c\<lparr>ajax_url := Some url\<rparr> else c)"

text \<open>\<^verbatim>\<open>xcel_download_bill_history.py\<close>, \<^verbatim>\<open>on_request\<close>.\<close>

definition on_request_bill_history :: "captured \<Rightarrow> string \<Rightarrow> captured" where
  "on_request_bill_history c url =
     (if py_in ''bill-presentment-account-summary-ajax'' url
         \<and> ajax_url c = None
      then c\<lparr>ajax_url := Some url\<rparr> else c)"

text \<open>\<^verbatim>\<open>xcel_download_gas_monthly.py\<close>, \<^verbatim>\<open>on_request\<close>.\<close>

definition on_request_gas_monthly :: "captured \<Rightarrow> string \<Rightarrow> captured" where
  "on_request_gas_monthly c url =
     (if py_in ''usage-history-ajax/format/json'' url
         \<and> ajax_url c = None
      then c\<lparr>ajax_url := Some url\<rparr> else c)"

text \<open>The observer called on each request of a phase, in the order the page issues them.\<close>

definition observe :: "(captured \<Rightarrow> string \<Rightarrow> captured) \<Rightarrow> captured \<Rightarrow> string list \<Rightarrow> captured" where
  "observe on_request c urls = foldl on_request c urls"

text \<open>
  The capture predicates alone (what a request must look like to qualify), without the
  slot test.
\<close>

definition qualifies_elec_daily :: "string \<Rightarrow> bool" where
  "qualifies_elec_daily url =
     (py_in ''usage-history-ajax/format/json'' url \<and> py_in ''timePeriod=DAILY'' url)"

definition qualifies_bill_history :: "string \<Rightarrow> bool" where
  "qualifies_bill_history url = py_in ''bill-presentment-account-summary-ajax'' url"

definition qualifies_gas_monthly :: "string \<Rightarrow> bool" where
  "qualifies_gas_monthly url = py_in ''usage-history-ajax/format/json'' url"

text \<open>
  \<^verbatim>\<open>xcel_download_gas_monthly.py\<close>, \<^verbatim>\<open>main\<close>, steps 1 to 6, as far as the slot is
  concerned. \<open>before\<close> are the requests of steps 1 to 4 (login, SSO, loading the
  usage page), \<open>step5\<close> those fired by the meter selection, \<open>step6\<close> those fired
  by the switch to the monthly view; \<open>selected\<close> is what the meter-selection script
  returned (the option's text, or null). The slot is reset before step 5 and again
  before step 6.
\<close>

definition capture_gas_monthly ::
    "string list \<Rightarrow> string option \<Rightarrow> string list \<Rightarrow> string list \<Rightarrow> error + string" where
  "capture_gas_monthly before selected step5 step6 =
     (let c0 = observe on_request_gas_monthly \<lparr>ajax_url = None\<rparr> before;
          c1 = c0\<lparr>ajax_url := None\<rparr>;
          c2 = observe on_request_gas_monthly c1 step5
      in if \<not> truthy_str selected then Inl MeterNotFound
         else
           let ajax_url_from_meter = ajax_url c2;
               c3 = c2\<lparr>ajax_url := None\<rparr>;
               c4 = observe on_request_gas_monthly c3 step6;
               url = py_or (ajax_url c4) ajax_url_from_meter
           in if \<not> truthy_str url then Inl CaptureMissing else Inr (the url))"

section \<open>Replaying the captured URL with another usage type\<close>

text \<open>
  The functions of \<^verbatim>\<open>urllib.parse\<close> that \<^verbatim>\<open>swap_usage_type\<close> calls on the query
  string, as the standard library defines them for \<^verbatim>\<open>str\<close> arguments.
\<close>

text \<open>\<^verbatim>\<open>s.split(sep)\<close> for a one-character separator: never the empty list.\<close>

fun split_on :: "char \<Rightarrow> string \<Rightarrow> string list" where
  "split_on sep [] = [[]]"
| "split_on sep (c # cs) =
     (if c = sep then [] # split_on sep cs
      else (case split_on sep cs of
              [] \<Rightarrow> [[c]]
            | p # ps \<Rightarrow> (c # p) # ps))"




















section \<open>Numbers, CSV files\<close>

text \<open>
  A JSON number is an exact rational here: the binary rounding of Python's \<^verbatim>\<open>float\<close>
  is not modelled. \<^verbatim>\<open>round(x, ndigits)\<close> rounds to the nearest multiple of
  \<open>10 ^ -ndigits\<close>, a tie to the even one.
\<close>

type_synonym num = rat

definition round_half_even :: "rat \<Rightarrow> int" where
  "round_half_even x =
     (let f = \<lfloor>x\<rfloor>; d = x - of_int f
      in if d < 1 / 2 then f
         else if 1 / 2 < d then f + 1
         else if even f then f else f + 1)"

definition py_round :: "num \<Rightarrow> nat \<Rightarrow> num" where
  "py_round x ndigits = of_int (round_half_even (x * 10 ^ ndigits)) / 10 ^ ndigits"

text \<open>
  A JSON value that is a number or null. \<^verbatim>\<open>v or 0.0\<close> is the number, and zero for
  null (and for zero itself); \<^verbatim>\<open>if v\<close> holds for a number other than zero.
\<close>

definition num_or_zero :: "num option \<Rightarrow> num" where
  "num_or_zero v = (case v of None \<Rightarrow> 0 | Some x \<Rightarrow> if x = 0 then 0 else x)"

definition truthy_num :: "num option \<Rightarrow> bool" where
  "truthy_num v = (case v of None \<Rightarrow> False | Some x \<Rightarrow> x \<noteq> 0)"

text \<open>
  What \<^verbatim>\<open>csv.writer\<close> is given for one cell: a string, a number, or \<^verbatim>\<open>None\<close>
  (written as the empty string). A file is its list of rows, the header first; opening a
  path for writing replaces what was there.
\<close>

datatype cell = CStr string | CNum num | CNone

type_synonym csv_row = "cell list"

type_synonym files = "string \<rightharpoonup> csv_row list"

definition cell_of_value :: "num option \<Rightarrow> cell" where
  "cell_of_value v = (case v of None \<Rightarrow> CNone | Some x \<Rightarrow> CNum x)"

text \<open>\<^verbatim>\<open>enumerate(xs)\<close>.\<close>

definition py_enumerate :: "'a list \<Rightarrow> (nat \<times> 'a) list" where
  "py_enumerate xs = zip [0..<length xs] xs"

section \<open>Dates\<close>

definition digit_value :: "char \<Rightarrow> nat" where
  "digit_value c = of_char c - 48"

definition digit_char :: "nat \<Rightarrow> char" where
  "digit_char n = ''0123456789'' ! (n mod 10)"

definition is_digit :: "char \<Rightarrow> bool" where
  "is_digit c = (c \<in> set ''0123456789'')"

definition is_space :: "char \<Rightarrow> bool" where
  "is_space c = (let n = (of_char c :: nat) in (9 \<le> n \<and> n \<le> 13) \<or> (28 \<le> n \<and> n \<le> 32))"

text \<open>
  The regular expressions \<^verbatim>\<open>strptime\<close> uses for a directive, each matched against a
  whole piece of the input: \<^verbatim>\<open>%m\<close> and \<^verbatim>\<open>%I\<close> are \<^verbatim>\<open>1[0-2]|0[1-9]|[1-9]\<close>,
  \<^verbatim>\<open>%d\<close> is \<^verbatim>\<open>3[0-1]|[1-2]\d|0[1-9]|[1-9]| [1-9]\<close>, \<^verbatim>\<open>%Y\<close> is
  \<^verbatim>\<open>\d\d\d\d\<close>, \<^verbatim>\<open>%M\<close> is \<^verbatim>\<open>[0-5]\d|\d\<close>, \<^verbatim>\<open>%p\<close> is \<^verbatim>\<open>am|pm\<close>
  in either case.
\<close>

definition re_month :: "string \<Rightarrow> nat option" where
  "re_month s =
     (case s of
        [a] \<Rightarrow> if a \<in> set ''123456789'' then Some (digit_value a) else None
      | [a, b] \<Rightarrow>
          if (a = CHR ''1'' \<and> b \<in> set ''012'') \<or> (a = CHR ''0'' \<and> b \<in> set ''123456789'')
          then Some (10 * digit_value a + digit_value b) else None
      | _ \<Rightarrow> None)"

definition re_day :: "string \<Rightarrow> nat option" where
  "re_day s =
     (case s of
        [a] \<Rightarrow> if a \<in> set ''123456789'' then Some (digit_value a) else None
      | [a, b] \<Rightarrow>
          if (a = CHR ''3'' \<and> b \<in> set ''01'') \<or> (a \<in> set ''12'' \<and> is_digit b)
             \<or> (a = CHR ''0'' \<and> b \<in> set ''123456789'')
          then Some (10 * digit_value a + digit_value b)
          else if a = CHR '' '' \<and> b \<in> set ''123456789'' then Some (digit_value b)
          else None
      | _ \<Rightarrow> None)"

definition re_year :: "string \<Rightarrow> nat option" where
  "re_year s =
     (case s of
        [a, b, c, d] \<Rightarrow>
          if is_digit a \<and> is_digit b \<and> is_digit c \<and> is_digit d
          then Some (1000 * digit_value a + 100 * digit_value b + 10 * digit_value c + digit_value d)
          else None
      | _ \<Rightarrow> None)"

definition re_minute :: "string \<Rightarrow> nat option" where
  "re_minute s =
     (case s of
        [a] \<Rightarrow> if is_digit a then Some (digit_value a) else None
      | [a, b] \<Rightarrow>
          if a \<in> set ''012345'' \<and> is_digit b then Some (10 * digit_value a + digit_value b)
          else None
      | _ \<Rightarrow> None)"

definition re_ampm :: "string \<Rightarrow> bool option" where
  "re_ampm s =
     (case s of
        [a, b] \<Rightarrow>
          if b \<in> set ''mM'' then
            (if a \<in> set ''aA'' then Some False else if a \<in> set ''pP'' then Some True else None)
          else None
      | _ \<Rightarrow> None)"

text \<open>The proleptic Gregorian calendar of \<^verbatim>\<open>datetime\<close>: years 1 to 9999.\<close>

definition is_leap :: "nat \<Rightarrow> bool" where
  "is_leap y = (y mod 4 = 0 \<and> (y mod 100 \<noteq> 0 \<or> y mod 400 = 0))"

definition days_in_month :: "nat \<Rightarrow> nat \<Rightarrow> nat" where
  "days_in_month y m =
     (if m = 2 then (if is_leap y then 29 else 28)
      else if m \<in> {4, 6, 9, 11} then 30 else 31)"

definition valid_date :: "nat \<Rightarrow> nat \<Rightarrow> nat \<Rightarrow> bool" where
  "valid_date y m d = (1 \<le> y \<and> 1 \<le> m \<and> m \<le> 12 \<and> 1 \<le> d \<and> d \<le> days_in_month y m)"

record datetime =
  year :: nat
  month :: nat
  day :: nat
  hour :: nat
  minute :: nat

text \<open>
  \<^verbatim>\<open>datetime.strptime(s, "%m/%d/%Y")\<close>: \<open>None\<close> stands for the \<^verbatim>\<open>ValueError\<close>
  of a string that does not match or names no day of the calendar.
\<close>

definition strptime_mdY :: "string \<Rightarrow> datetime option" where
  "strptime_mdY s =
     (let m_str = takeWhile (\<lambda>c. c \<noteq> CHR ''/'') s;
          r1 = drop 1 (dropWhile (\<lambda>c. c \<noteq> CHR ''/'') s);
          d_str = takeWhile (\<lambda>c. c \<noteq> CHR ''/'') r1;
          y_str = drop 1 (dropWhile (\<lambda>c. c \<noteq> CHR ''/'') r1)
      in case (re_month m_str, re_day d_str, re_year y_str) of
           (Some m, Some d, Some y) \<Rightarrow>
             if valid_date y m d
             then Some \<lparr>year = y, month = m, day = d, hour = 0, minute = 0\<rparr>
             else None
         | _ \<Rightarrow> None)"

text \<open>\<^verbatim>\<open>datetime.strptime(s, "%m/%d/%Y %I:%M %p")\<close>; a blank of the format matches
  one or more white-space characters.\<close>

definition strptime_mdY_IMp :: "string \<Rightarrow> datetime option" where
  "strptime_mdY_IMp s =
     (let m_str = takeWhile (\<lambda>c. c \<noteq> CHR ''/'') s;
          r1 = drop 1 (dropWhile (\<lambda>c. c \<noteq> CHR ''/'') s);
          d_str = takeWhile (\<lambda>c. c \<noteq> CHR ''/'') r1;
          r2 = drop 1 (dropWhile (\<lambda>c. c \<noteq> CHR ''/'') r1);
          y_str = take 4 r2;
          r3 = drop 4 r2;
          r4 = dropWhile is_space r3;
          i_str = takeWhile (\<lambda>c. c \<noteq> CHR '':'') r4;
          r5 = drop 1 (dropWhile (\<lambda>c. c \<noteq> CHR '':'') r4);
          min_str = takeWhile (\<lambda>c. \<not> is_space c) r5;
          r6 = dropWhile (\<lambda>c. \<not> is_space c) r5;
          p_str = dropWhile is_space r6
      in if takeWhile is_space r3 = [] \<or> takeWhile is_space r6 = [] then None
         else case (re_month m_str, re_day d_str, re_year y_str) of
           (Some m, Some d, Some y) \<Rightarrow>
             (case (re_month i_str, re_minute min_str, re_ampm p_str) of
                (Some i, Some mi, Some pm) \<Rightarrow>
                  if valid_date y m d
                  then Some \<lparr>year = y, month = m, day = d,
                              hour = i mod 12 + (if pm then 12 else 0), minute = mi\<rparr>
                  else None
              | _ \<Rightarrow> None)
         | _ \<Rightarrow> None)"

text \<open>
  \<^verbatim>\<open>strftime\<close>: \<^verbatim>\<open>%m\<close>, \<^verbatim>\<open>%d\<close>, \<^verbatim>\<open>%H\<close> and \<^verbatim>\<open>%M\<close> are two digits;
  \<^verbatim>\<open>%Y\<close> is the year in decimal (four digits from the year 1000 on; the C library
  decides the padding of an earlier year, none is modelled).
\<close>

definition pad2 :: "nat \<Rightarrow> string" where
  "pad2 n = [digit_char (n div 10), digit_char n]"

definition year_str :: "nat \<Rightarrow> string" where
  "year_str y =
     dropWhile (\<lambda>c. c = CHR ''0'')
       [digit_char (y div 1000), digit_char (y div 100), digit_char (y div 10), digit_char y]"

definition strftime_Ymd :: "datetime \<Rightarrow> string" where
  "strftime_Ymd dt = year_str (year dt) @ ''-'' @ pad2 (month dt) @ ''-'' @ pad2 (day dt)"

definition strftime_Ymd_HM :: "datetime \<Rightarrow> string" where
  "strftime_Ymd_HM dt =
     strftime_Ymd dt @ '' '' @ pad2 (hour dt) @ '':'' @ pad2 (minute dt)"

section \<open>Series payloads: the usage and cost charts\<close>

text \<open>
  One entry of \<^verbatim>\<open>series_data\<close>, \<^verbatim>\<open>{"name": ..., "data": [number | null, ...]}\<close>,
  and the chart response \<^verbatim>\<open>json_to_csv\<close> reads. A key of the response that is absent
  is \<open>None\<close>: \<^verbatim>\<open>data.get(key, [])\<close> then gives the empty list.
\<close>

record series =
  name :: string
  data :: "num option list"

record chart_payload =
  column_fulldates :: "string list option"
  series_data :: "series list option"

definition get_or_empty :: "'a list option \<Rightarrow> 'a list" where
  "get_or_empty v = (case v of None \<Rightarrow> [] | Some xs \<Rightarrow> xs)"

text \<open>\<^verbatim>\<open>s["data"][i] if i < len(s["data"]) else 0.0\<close>.\<close>

definition value_at :: "num option list \<Rightarrow> nat \<Rightarrow> num option" where
  "value_at vs i = (if i < length vs then vs ! i else Some 0)"

text \<open>The row \<^verbatim>\<open>json_to_csv\<close> writes for the date at index \<open>i\<close>.\<close>

definition chart_row :: "series list \<Rightarrow> nat \<times> string \<Rightarrow> csv_row" where
  "chart_row srs = (\<lambda>(i, date).
     (let vals = map (\<lambda>s. value_at (data s) i) srs;
          total = py_round (sum_list (map num_or_zero vals)) 3
      in [CStr date] @ map cell_of_value vals @ [CNum total]))"

text \<open>
  \<^verbatim>\<open>json_to_csv\<close> (the same in \<^verbatim>\<open>xcel_download_elec_daily.py\<close>,
  \<^verbatim>\<open>xcel_download_elec_monthly.py\<close> and \<^verbatim>\<open>xcel_download_gas_monthly.py\<close>): the
  files after the call and the number it returns.
\<close>

definition json_to_csv :: "chart_payload \<Rightarrow> string \<Rightarrow> files \<Rightarrow> files \<times> nat" where
  "json_to_csv payload output_path fs =
     (let dates = map (\<lambda>d. hd (split_on CHR '' '' d)) (get_or_empty (column_fulldates payload));
          srs = get_or_empty (series_data payload)
      in if dates = [] \<or> srs = [] then (fs, 0)
         else
           let header = [CStr ''Date''] @ map (\<lambda>s. CStr (name s)) srs @ [CStr ''Total''];
               rows = map (chart_row srs) (py_enumerate dates)
           in (fs(output_path \<mapsto> header # rows), length dates))"

section \<open>Series payloads: the bill history\<close>

record barchart =
  categories :: "string list option"
  bar_series_data :: "series list option"

record bill_payload =
  cost_barchart :: "barchart option"

text \<open>
  \<^verbatim>\<open>{s["name"]: s["data"] for s in series}\<close>: of two series with one name the later
  one stays.
\<close>

definition by_name :: "series list \<Rightarrow> string \<Rightarrow> num option list option" where
  "by_name srs = map_of (rev (map (\<lambda>s. (name s, data s)) srs))"

definition dict_get :: "(string \<Rightarrow> 'v option) \<Rightarrow> string \<Rightarrow> 'v \<Rightarrow> 'v" where
  "dict_get d k dflt = (case d k of None \<Rightarrow> dflt | Some v \<Rightarrow> v)"

text \<open>The MM/DD/YYYY label as YYYY-MM-DD; the label itself on \<^verbatim>\<open>ValueError\<close>.\<close>

definition bill_date :: "string \<Rightarrow> string" where
  "bill_date raw_date =
     (case strptime_mdY raw_date of
        Some dt \<Rightarrow> strftime_Ymd dt
      | None \<Rightarrow> raw_date)"

text \<open>
  The body of the loop of \<^verbatim>\<open>bill_json_to_csv\<close> at index \<open>i\<close>: the row it would
  write, and the rows (none or one) it does write.
\<close>

definition bill_record :: "num option list \<Rightarrow> num option list \<Rightarrow> nat \<times> string \<Rightarrow> csv_row" where
  "bill_record elec_vals gas_vals = (\<lambda>(i, raw_date).
     (let date = bill_date raw_date;
          elec = value_at elec_vals i;
          gas = value_at gas_vals i;
          total = py_round (num_or_zero elec + num_or_zero gas) 2
      in [CStr date, CNum (num_or_zero elec), CNum (num_or_zero gas), CNum total]))"

definition bill_row :: "num option list \<Rightarrow> num option list \<Rightarrow> nat \<times> string \<Rightarrow> csv_row list" where
  "bill_row elec_vals gas_vals = (\<lambda>(i, raw_date).
     (let elec = value_at elec_vals i;
          gas = value_at gas_vals i
      in if truthy_num elec \<or> truthy_num gas
         then [bill_record elec_vals gas_vals (i, raw_date)]
         else []))"

text \<open>\<^verbatim>\<open>xcel_download_bill_history.py\<close>, \<^verbatim>\<open>bill_json_to_csv\<close>.\<close>

definition bill_json_to_csv :: "bill_payload \<Rightarrow> string \<Rightarrow> files \<Rightarrow> files \<times> nat" where
  "bill_json_to_csv payload output_path fs =
     (let chart = (case cost_barchart payload of
                     None \<Rightarrow> \<lparr>categories = None, bar_series_data = None\<rparr>
                   | Some c \<Rightarrow> c);
          cats = get_or_empty (categories chart);
          srs = get_or_empty (bar_series_data chart)
      in if cats = [] \<or> srs = [] then (fs, 0)
         else
           let elec_vals = dict_get (by_name srs) ''Electric Charges'' (replicate (length cats) (Some 0));
               gas_vals = dict_get (by_name srs) ''Gas Charges'' (replicate (length cats) (Some 0));
               header = [CStr ''Date'', CStr ''Electric Charges'', CStr ''Gas Charges'', CStr ''Total''];
               rows = concat (map (bill_row elec_vals gas_vals) (py_enumerate cats))
           in (fs(output_path \<mapsto> header # rows), length rows))"

section \<open>Interval payloads: the on-demand readings\<close>

text \<open>
  One item of \<^verbatim>\<open>intervals\<close>. A field is \<open>None\<close> when the key is absent or null
  (\<^verbatim>\<open>iv.get\<close> gives \<^verbatim>\<open>None\<close> or the empty-string default, which the test and the
  CSV writer treat alike); otherwise it has the type the response gives it: a timestamp string,
  integer epoch seconds, an amount, a rate level.
\<close>

record interval =
  last_request_timestamp :: "string option"
  last_request_unix_timestamp :: "int option"
  odr_amt :: "num option"
  rate_level :: "string option"

record interval_row =
  DateTime :: string
  kWh :: num
  row_rate_level :: string
  unix_ms :: int

text \<open>\<^verbatim>\<open>xcel_download_ondemand.py\<close>, \<^verbatim>\<open>parse_interval_datetime\<close>.\<close>

definition parse_interval_datetime :: "string \<Rightarrow> string" where
  "parse_interval_datetime ts =
     (case strptime_mdY_IMp ts of
        Some dt \<Rightarrow> strftime_Ymd_HM dt
      | None \<Rightarrow> ts)"

text \<open>
  The body of the first loop of \<^verbatim>\<open>intervals_to_csv\<close>: the row built from an item,
  and the rows (none or one) appended for it.
\<close>

definition interval_row_of :: "interval \<Rightarrow> interval_row" where
  "interval_row_of iv =
     (let ts_str = (case last_request_timestamp iv of None \<Rightarrow> [] | Some s \<Rightarrow> s);
          unix_s = last_request_unix_timestamp iv;
          kwh = odr_amt iv;
          rate = (case rate_level iv of None \<Rightarrow> [] | Some s \<Rightarrow> s)
      in \<lparr>DateTime = parse_interval_datetime ts_str, kWh = the kwh,
          row_rate_level = rate, unix_ms = the unix_s * 1000\<rparr>)"

definition interval_rows :: "interval \<Rightarrow> interval_row list" where
  "interval_rows iv =
     (let ts_str = (case last_request_timestamp iv of None \<Rightarrow> [] | Some s \<Rightarrow> s);
          unix_s = last_request_unix_timestamp iv;
          kwh = odr_amt iv
      in if ts_str \<noteq> [] \<and> unix_s \<noteq> None \<and> kwh \<noteq> None
         then [interval_row_of iv]
         else [])"

definition interval_cells :: "interval_row \<Rightarrow> csv_row" where
  "interval_cells r = [CStr (DateTime r), CNum (kWh r), CStr (row_rate_level r), CNum (of_int (unix_ms r))]"

text \<open>
  The rows of \<^verbatim>\<open>intervals_to_csv\<close> after \<^verbatim>\<open>rows.sort(key=...)\<close>: Python's sort is
  stable, as \<^const>\<open>sort_key\<close> is.
\<close>

definition sorted_interval_rows :: "interval list \<Rightarrow> interval_row list" where
  "sorted_interval_rows intervals = sort_key unix_ms (concat (map interval_rows intervals))"

text \<open>\<^verbatim>\<open>xcel_download_ondemand.py\<close>, \<^verbatim>\<open>intervals_to_csv\<close>.\<close>

definition intervals_to_csv :: "interval list \<Rightarrow> string \<Rightarrow> files \<Rightarrow> files \<times> nat" where
  "intervals_to_csv intervals output_path fs =
     (let rows = sorted_interval_rows intervals;
          header = [CStr ''DateTime'', CStr ''kWh'', CStr ''rate_level'', CStr ''unix_ms'']
      in (fs(output_path \<mapsto> header # map interval_cells rows), length rows))"

section \<open>Fetching the JSON\<close>

text \<open>
  What \<^verbatim>\<open>requests.get\<close> returns: the status code, and the body as \<^verbatim>\<open>r.json()\<close>
  decodes it (\<open>None\<close> for a body that \<^verbatim>\<open>r.json()\<close> rejects). The server is the list
  of responses it will give, one for each GET it receives, in order; \<open>sent\<close> keeps the
  URLs of the GETs issued so far.
\<close>

record 'p response =
  status_code :: int
  json :: "'p option"





section \<open>Amounts of money\<close>





section \<open>Notions used to state the properties\<close>

text \<open>
  An interval item that has all it needs: a timestamp that is there and not empty, epoch
  seconds, and an amount.
\<close>

definition well_formed :: "interval \<Rightarrow> bool" where
  "well_formed iv =
     (last_request_timestamp iv \<noteq> None \<and> last_request_timestamp iv \<noteq> Some []
      \<and> last_request_unix_timestamp iv \<noteq> None \<and> odr_amt iv \<noteq> None)"



text \<open>Every one of the value lists is zero, null or too short at index \<open>i\<close>.\<close>

definition all_zero_at :: "num option list list \<Rightarrow> nat \<Rightarrow> bool" where
  "all_zero_at vss i = list_all (\<lambda>vs. \<not> truthy_num (value_at vs i)) vss"








section \<open>Properties of the capture slot\<close>

lemma py_in_nonempty: "py_in needle s \<Longrightarrow> needle \<noteq> [] \<Longrightarrow> s \<noteq> []"
  by (cases s) auto

lemma observe_elec_daily_filled:
  "observe on_request_elec_daily \<lparr>ajax_url = Some u\<rparr> urls = \<lparr>ajax_url = Some u\<rparr>"
  by (induction urls) (simp_all add: observe_def on_request_elec_daily_def)

lemma observe_elec_daily_empty:
  "ajax_url (observe on_request_elec_daily \<lparr>ajax_url = None\<rparr> urls) = find qualifies_elec_daily urls"
proof (induction urls)
  case Nil
  show ?case by (simp add: observe_def)
next
  case (Cons u urls)
  show ?case
  proof (cases "qualifies_elec_daily u")
    case True
    then have "on_request_elec_daily \<lparr>ajax_url = None\<rparr> u = \<lparr>ajax_url = Some u\<rparr>"
      by (simp add: on_request_elec_daily_def qualifies_elec_daily_def)
    then have "observe on_request_elec_daily \<lparr>ajax_url = None\<rparr> (u # urls) = \<lparr>ajax_url = Some u\<rparr>"
      using observe_elec_daily_filled [of u urls] by (simp add: observe_def)
    with True show ?thesis by simp
  next
    case False
    then have "on_request_elec_daily \<lparr>ajax_url = None\<rparr> u = \<lparr>ajax_url = None\<rparr>"
      by (simp add: on_request_elec_daily_def qualifies_elec_daily_def)
    then have "observe on_request_elec_daily \<lparr>ajax_url = None\<rparr> (u # urls)
        = observe on_request_elec_daily \<lparr>ajax_url = None\<rparr> urls"
      by (simp add: observe_def)
    with False Cons show ?thesis by simp
  qed
qed

lemma observe_bill_history_filled:
  "observe on_request_bill_history \<lparr>ajax_url = Some u\<rparr> urls = \<lparr>ajax_url = Some u\<rparr>"
  by (induction urls) (simp_all add: observe_def on_request_bill_history_def)

lemma observe_bill_history_empty:
  "ajax_url (observe on_request_bill_history \<lparr>ajax_url = None\<rparr> urls) = find qualifies_bill_history urls"
proof (induction urls)
  case Nil
  show ?case by (simp add: observe_def)
next
  case (Cons u urls)
  show ?case
  proof (cases "qualifies_bill_history u")
    case True
    then have "on_request_bill_history \<lparr>ajax_url = None\<rparr> u = \<lparr>ajax_url = Some u\<rparr>"
      by (simp add: on_request_bill_history_def qualifies_bill_history_def)
    then have "observe on_request_bill_history \<lparr>ajax_url = None\<rparr> (u # urls) = \<lparr>ajax_url = Some u\<rparr>"
      using observe_bill_history_filled [of u urls] by (simp add: observe_def)
    with True show ?thesis by simp
  next
    case False
    then have "on_request_bill_history \<lparr>ajax_url = None\<rparr> u = \<lparr>ajax_url = None\<rparr>"
      by (simp add: on_request_bill_history_def qualifies_bill_history_def)
    then have "observe on_request_bill_history \<lparr>ajax_url = None\<rparr> (u # urls)
        = observe on_request_bill_history \<lparr>ajax_url = None\<rparr> urls"
      by (simp add: observe_def)
    with False Cons show ?thesis by simp
  qed
qed

text \<open>
  Claim C2. For every sequence of requests handed in order to the observer of
  \<^verbatim>\<open>xcel_download_elec_daily.py\<close> or of \<^verbatim>\<open>xcel_download_bill_history.py\<close>, a slot
  that starts empty ends up holding the earliest request of the sequence that satisfies
  the capture predicate (\<^const>\<open>find\<close> returns the first element that satisfies a
  predicate, and \<^term>\<open>None\<close> when there is none); a slot that is already filled is
  left as it is by every single request and by every sequence of requests, qualifying or
  not.
\<close>

theorem first_match_retains_earliest:
  "ajax_url (observe on_request_elec_daily \<lparr>ajax_url = None\<rparr> urls) = find qualifies_elec_daily urls
   \<and> ajax_url (observe on_request_bill_history \<lparr>ajax_url = None\<rparr> urls) = find qualifies_bill_history urls
   \<and> on_request_elec_daily \<lparr>ajax_url = Some u\<rparr> url = \<lparr>ajax_url = Some u\<rparr>
   \<and> on_request_bill_history \<lparr>ajax_url = Some u\<rparr> url = \<lparr>ajax_url = Some u\<rparr>
   \<and> observe on_request_elec_daily \<lparr>ajax_url = Some u\<rparr> urls = \<lparr>ajax_url = Some u\<rparr>
   \<and> observe on_request_bill_history \<lparr>ajax_url = Some u\<rparr> urls = \<lparr>ajax_url = Some u\<rparr>"
  by (simp add: observe_elec_daily_empty observe_bill_history_empty
      observe_elec_daily_filled observe_bill_history_filled
      on_request_elec_daily_def on_request_bill_history_def)

lemma observe_gas_monthly_filled:
  "observe on_request_gas_monthly \<lparr>ajax_url = Some u\<rparr> urls = \<lparr>ajax_url = Some u\<rparr>"
  by (induction urls) (simp_all add: observe_def on_request_gas_monthly_def)

lemma observe_gas_monthly_empty:
  "ajax_url (observe on_request_gas_monthly \<lparr>ajax_url = None\<rparr> urls) = find qualifies_gas_monthly urls"
proof (induction urls)
  case Nil
  show ?case by (simp add: observe_def)
next
  case (Cons u urls)
  show ?case
  proof (cases "qualifies_gas_monthly u")
    case True
    then have "on_request_gas_monthly \<lparr>ajax_url = None\<rparr> u = \<lparr>ajax_url = Some u\<rparr>"
      by (simp add: on_request_gas_monthly_def qualifies_gas_monthly_def)
    then have "observe on_request_gas_monthly \<lparr>ajax_url = None\<rparr> (u # urls) = \<lparr>ajax_url = Some u\<rparr>"
      using observe_gas_monthly_filled [of u urls] by (simp add: observe_def)
    with True show ?thesis by simp
  next
    case False
    then have "on_request_gas_monthly \<lparr>ajax_url = None\<rparr> u = \<lparr>ajax_url = None\<rparr>"
      by (simp add: on_request_gas_monthly_def qualifies_gas_monthly_def)
    then have "observe on_request_gas_monthly \<lparr>ajax_url = None\<rparr> (u # urls)
        = observe on_request_gas_monthly \<lparr>ajax_url = None\<rparr> urls"
      by (simp add: observe_def)
    with False Cons show ?thesis by simp
  qed
qed

lemma find_qualifies_gas_truthy:
  "find qualifies_gas_monthly urls = Some u \<Longrightarrow> truthy_str (Some u)"
proof -
  assume "find qualifies_gas_monthly urls = Some u"
  then have "qualifies_gas_monthly u"
    by (auto simp: find_Some_iff)
  then have "u \<noteq> []"
    using py_in_nonempty [of "''usage-history-ajax/format/json''" u]
    by (simp add: qualifies_gas_monthly_def)
  then show ?thesis by simp
qed

lemma reset_slot: "(c::captured)\<lparr>ajax_url := None\<rparr> = \<lparr>ajax_url = None\<rparr>"
  by simp

text \<open>
  Claim C1, as amended. In \<^verbatim>\<open>xcel_download_gas_monthly.py\<close> the slot is reset before
  the meter selection (the earlier phase) and again before the switch to the monthly view
  (the later phase), and the observer fills it only while it is empty. The URL the run
  retains is therefore the earliest qualifying request of the later phase if that phase
  has one, and otherwise the earliest qualifying request of the earlier phase; when
  neither phase has one the run fails with the capture error (and with the meter error
  when no gas meter option was found). Requests before the first reset never count.
\<close>

theorem gas_monthly_prefers_first_of_later_phase:
  "capture_gas_monthly before selected step5 step6 =
     (if \<not> truthy_str selected then Inl MeterNotFound
      else case find qualifies_gas_monthly step6 of
             Some u \<Rightarrow> Inr u
           | None \<Rightarrow> (case find qualifies_gas_monthly step5 of
                        Some u \<Rightarrow> Inr u
                      | None \<Rightarrow> Inl CaptureMissing))"
proof (cases "truthy_str selected")
  case False
  then show ?thesis by (simp add: capture_gas_monthly_def Let_def)
next
  case sel: True
  show ?thesis
  proof (cases "find qualifies_gas_monthly step6")
    case (Some u)
    then have "truthy_str (Some u)" by (rule find_qualifies_gas_truthy)
    with sel Some show ?thesis
      by (simp add: capture_gas_monthly_def Let_def reset_slot observe_gas_monthly_empty py_or_def)
  next
    case n6: None
    show ?thesis
    proof (cases "find qualifies_gas_monthly step5")
      case (Some u)
      then have "truthy_str (Some u)" by (rule find_qualifies_gas_truthy)
      with sel n6 Some show ?thesis
        by (simp add: capture_gas_monthly_def Let_def reset_slot observe_gas_monthly_empty py_or_def)
    next
      case None
      with sel n6 show ?thesis
        by (simp add: capture_gas_monthly_def Let_def reset_slot observe_gas_monthly_empty py_or_def)
    qed
  qed
qed

text \<open>
  The claim as stated fails when the later phase fires two qualifying requests: the
  latest one of the phase is the MONTHLY request, and the run retains the DAILY one that
  came first.
\<close>

theorem supersede_latest_counterexample:
  "find qualifies_gas_monthly
       (rev [''https://myenergy.xcelenergy.com/myenergy/usage-history-ajax/format/json?timePeriod=DAILY'',
             ''https://myenergy.xcelenergy.com/myenergy/usage-history-ajax/format/json?timePeriod=MONTHLY''])
     = Some ''https://myenergy.xcelenergy.com/myenergy/usage-history-ajax/format/json?timePeriod=MONTHLY''
   \<and> capture_gas_monthly [] (Some ''All Legacy Gas Meters'') []
        [''https://myenergy.xcelenergy.com/myenergy/usage-history-ajax/format/json?timePeriod=DAILY'',
         ''https://myenergy.xcelenergy.com/myenergy/usage-history-ajax/format/json?timePeriod=MONTHLY'']
     = Inr ''https://myenergy.xcelenergy.com/myenergy/usage-history-ajax/format/json?timePeriod=DAILY''"
  by (simp add: capture_gas_monthly_def Let_def observe_def on_request_gas_monthly_def
      py_or_def qualifies_gas_monthly_def)

section \<open>Properties of the usage-type swap\<close>

subsection \<open>Splitting and joining\<close>

lemma split_on_never_empty: "split_on sep s \<noteq> []"
  by (induction s) (auto split: list.split)




subsection \<open>Plain strings pass the codec unchanged\<close>











subsection \<open>The dict built from the fields\<close>













subsection \<open>Writing the dict out\<close>






subsection \<open>What the swap keeps\<close>













section \<open>Properties of the series normalizers\<close>

lemma round_half_even_zero: "round_half_even 0 = 0"
  by (simp add: round_half_even_def)

lemma py_round_zero: "py_round 0 ndigits = 0"
  by (simp add: py_round_def round_half_even_zero)

lemma truthy_num_zero: "\<not> truthy_num v \<longleftrightarrow> num_or_zero v = 0"
  by (cases v) (simp_all add: truthy_num_def num_or_zero_def)


lemma concat_map_if:
  "concat (map (\<lambda>x. if P x then [f x] else []) xs) = map f (filter P xs)"
  by (induction xs) simp_all

lemma bill_row_cases:
  "bill_row ev gv (i, l) = (if all_zero_at [ev, gv] i then [] else [bill_record ev gv (i, l)])"
  by (simp add: bill_row_def all_zero_at_def)

lemma bill_rows_filter:
  "concat (map (bill_row ev gv) (py_enumerate cats))
     = map (bill_record ev gv) (filter (\<lambda>(i, l). \<not> all_zero_at [ev, gv] i) (py_enumerate cats))"
proof -
  have "bill_row ev gv = (\<lambda>x. if (case x of (i, l) \<Rightarrow> \<not> all_zero_at [ev, gv] i)
                              then [bill_record ev gv x] else [])"
    by (rule ext) (auto simp: bill_row_cases split: prod.split)
  then show ?thesis
    by (simp add: concat_map_if)
qed

lemma sum_list_all_zero:
  "\<forall>x \<in> set xs. f x = (0::rat) \<Longrightarrow> sum_list (map f xs) = 0"
  by (induction xs) simp_all

lemma chart_row_all_zero:
  assumes "all_zero_at (map data srs) i"
  shows "chart_row srs (i, d) = CStr d # map (\<lambda>s. cell_of_value (value_at (data s) i)) srs @ [CNum 0]"
proof -
  from assms have "\<forall>s \<in> set srs. num_or_zero (value_at (data s) i) = 0"
    by (simp add: all_zero_at_def list_all_iff truthy_num_zero)
  then have "sum_list (map (\<lambda>s. num_or_zero (value_at (data s) i)) srs) = 0"
    by (rule sum_list_all_zero)
  then show ?thesis
    by (simp add: chart_row_def Let_def comp_def py_round_zero)
qed

text \<open>
  Claim C6. In \<^verbatim>\<open>bill_json_to_csv\<close> (drop policy on) the loop writes nothing at an
  index where both configured series, the electric and the gas charges, are zero, null
  or absent, and one row at every other index: the file holds the header and the rows of
  exactly the indices that have a charge, in order, and the number returned is their
  number. In \<^verbatim>\<open>json_to_csv\<close> (drop policy off) every index has its row, also one
  where every series is zero, null or absent: its total is 0.
\<close>

theorem drop_if_zero_policy:
  "(all_zero_at [ev, gv] i \<longrightarrow> bill_row ev gv (i, l) = [])
   \<and> (\<not> all_zero_at [ev, gv] i \<longrightarrow> bill_row ev gv (i, l) = [bill_record ev gv (i, l)])
   \<and> (cats \<noteq> [] \<and> srs \<noteq> []
        \<and> ev = dict_get (by_name srs) ''Electric Charges'' (replicate (length cats) (Some 0))
        \<and> gv = dict_get (by_name srs) ''Gas Charges'' (replicate (length cats) (Some 0))
      \<longrightarrow> bill_json_to_csv \<lparr>cost_barchart = Some \<lparr>categories = Some cats, bar_series_data = Some srs\<rparr>\<rparr>
            output_path fs
          = (fs(output_path \<mapsto>
                 [CStr ''Date'', CStr ''Electric Charges'', CStr ''Gas Charges'', CStr ''Total'']
                 # map (bill_record ev gv)
                     (filter (\<lambda>(i, l). \<not> all_zero_at [ev, gv] i) (py_enumerate cats))),
             length (filter (\<lambda>(i, l). \<not> all_zero_at [ev, gv] i) (py_enumerate cats))))
   \<and> (all_zero_at (map data srs) i
      \<longrightarrow> chart_row srs (i, d)
          = CStr d # map (\<lambda>s. cell_of_value (value_at (data s) i)) srs @ [CNum 0])
   \<and> (dates \<noteq> [] \<and> srs \<noteq> []
      \<longrightarrow> json_to_csv \<lparr>column_fulldates = Some dates, series_data = Some srs\<rparr> output_path fs
          = (fs(output_path \<mapsto>
                 (CStr ''Date'' # map (\<lambda>s. CStr (name s)) srs @ [CStr ''Total''])
                 # map (chart_row srs) (py_enumerate (map (\<lambda>d. hd (split_on CHR '' '' d)) dates))),
             length dates))"
proof -
  have a: "all_zero_at [ev, gv] i \<longrightarrow> bill_row ev gv (i, l) = []"
    by (simp add: bill_row_cases)
  have b: "\<not> all_zero_at [ev, gv] i \<longrightarrow> bill_row ev gv (i, l) = [bill_record ev gv (i, l)]"
    by (simp add: bill_row_cases)
  have c: "cats \<noteq> [] \<and> srs \<noteq> []
        \<and> ev = dict_get (by_name srs) ''Electric Charges'' (replicate (length cats) (Some 0))
        \<and> gv = dict_get (by_name srs) ''Gas Charges'' (replicate (length cats) (Some 0))
      \<longrightarrow> bill_json_to_csv \<lparr>cost_barchart = Some \<lparr>categories = Some cats, bar_series_data = Some srs\<rparr>\<rparr>
            output_path fs
          = (fs(output_path \<mapsto>
                 [CStr ''Date'', CStr ''Electric Charges'', CStr ''Gas Charges'', CStr ''Total'']
                 # map (bill_record ev gv)
                     (filter (\<lambda>(i, l). \<not> all_zero_at [ev, gv] i) (py_enumerate cats))),
             length (filter (\<lambda>(i, l). \<not> all_zero_at [ev, gv] i) (py_enumerate cats)))"
    by (simp add: bill_json_to_csv_def Let_def get_or_empty_def bill_rows_filter)
  have d: "all_zero_at (map data srs) i
      \<longrightarrow> chart_row srs (i, d)
          = CStr d # map (\<lambda>s. cell_of_value (value_at (data s) i)) srs @ [CNum 0]"
    by (simp add: chart_row_all_zero)
  have e: "dates \<noteq> [] \<and> srs \<noteq> []
      \<longrightarrow> json_to_csv \<lparr>column_fulldates = Some dates, series_data = Some srs\<rparr> output_path fs
          = (fs(output_path \<mapsto>
                 (CStr ''Date'' # map (\<lambda>s. CStr (name s)) srs @ [CStr ''Total''])
                 # map (chart_row srs) (py_enumerate (map (\<lambda>d. hd (split_on CHR '' '' d)) dates))),
             length dates)"
    by (simp add: json_to_csv_def Let_def get_or_empty_def)
  from a b c d e show ?thesis by blast
qed

lemma py_round_of_int: "py_round (of_int n) ndigits = of_int n"
proof -
  have "(of_int n :: rat) * 10 ^ ndigits = of_int (n * 10 ^ ndigits)"
    by simp
  then have "round_half_even (of_int n * 10 ^ ndigits) = n * 10 ^ ndigits"
    by (simp only: round_half_even_def Let_def floor_of_int) simp
  then show ?thesis
    by (simp add: py_round_def)
qed


lemma bill_json_to_csv_nonempty:
  assumes "cats \<noteq> []" and "srs \<noteq> []"
    and "ev = dict_get (by_name srs) ''Electric Charges'' (replicate (length cats) (Some 0))"
    and "gv = dict_get (by_name srs) ''Gas Charges'' (replicate (length cats) (Some 0))"
  shows "bill_json_to_csv \<lparr>cost_barchart = Some \<lparr>categories = Some cats, bar_series_data = Some srs\<rparr>\<rparr>
            output_path fs
          = (fs(output_path \<mapsto>
                 [CStr ''Date'', CStr ''Electric Charges'', CStr ''Gas Charges'', CStr ''Total'']
                 # map (bill_record ev gv)
                     (filter (\<lambda>(i, l). \<not> all_zero_at [ev, gv] i) (py_enumerate cats))),
             length (filter (\<lambda>(i, l). \<not> all_zero_at [ev, gv] i) (py_enumerate cats)))"
  using assms by (simp add: bill_json_to_csv_def Let_def get_or_empty_def bill_rows_filter)




subsection \<open>Dates of the bill history\<close>

lemma lt10_cases: "k < (10::nat) \<Longrightarrow> k \<in> {0, 1, 2, 3, 4, 5, 6, 7, 8, 9}"
  by auto

lemma digit_char_lt10:
  assumes "k < 10"
  shows "digit_value (digit_char k) = k \<and> is_digit (digit_char k)
       \<and> digit_char k \<noteq> CHR ''/'' \<and> (digit_char k = CHR ''0'' \<longleftrightarrow> k = 0)"
  using lt10_cases [OF assms]
  by (elim insertE emptyE) (simp_all add: digit_char_def digit_value_def is_digit_def)

lemma digit_char_mod: "digit_char (n mod 10) = digit_char n"
  by (simp add: digit_char_def)

lemma digit_value_digit_char: "digit_value (digit_char n) = n mod 10"
  using digit_char_lt10 [of "n mod 10"] by (simp add: digit_char_mod)

lemma is_digit_digit_char: "is_digit (digit_char n)"
  using digit_char_lt10 [of "n mod 10"] by (simp add: digit_char_mod)

lemma digit_char_not_slash: "digit_char n \<noteq> CHR ''/''"
  using digit_char_lt10 [of "n mod 10"] by (simp add: digit_char_mod)

lemma digit_char_zero: "digit_char n = CHR ''0'' \<longleftrightarrow> n mod 10 = 0"
  using digit_char_lt10 [of "n mod 10"] by (simp add: digit_char_mod)


lemma month_cases: "1 \<le> m \<Longrightarrow> m \<le> (12::nat) \<Longrightarrow> m \<in> {1, 2, 3, 4, 5, 6, 7, 8, 9, 10, 11, 12}"
  by (simp, arith)

lemma day_cases: "1 \<le> d \<Longrightarrow> d \<le> (31::nat) \<Longrightarrow> d \<in> {1, 2, 3, 4, 5, 6, 7, 8, 9, 10, 11, 12, 13, 14, 15, 16, 17, 18, 19, 20, 21, 22, 23, 24, 25, 26, 27, 28, 29, 30, 31}"
  by (simp, arith)

lemma re_month_pad2: "1 \<le> m \<Longrightarrow> m \<le> 12 \<Longrightarrow> re_month (pad2 m) = Some m"
  by (drule (1) month_cases, elim insertE emptyE)
     (simp_all add: re_month_def pad2_def digit_char_def digit_value_def)

lemma re_day_pad2: "1 \<le> d \<Longrightarrow> d \<le> 31 \<Longrightarrow> re_day (pad2 d) = Some d"
  by (drule (1) day_cases, elim insertE emptyE)
     (simp_all add: re_day_def pad2_def digit_char_def digit_value_def is_digit_def)

lemma thousands_digit:
  assumes "1000 \<le> y" and "y \<le> (9999::nat)"
  shows "y div 1000 mod 10 \<noteq> 0"
proof -
  from assms have "1 \<le> y div 1000" by (simp add: Suc_le_eq div_greater_zero_iff)
  moreover from assms have "y div 1000 < 10" by (simp add: div_less_iff_less_mult)
  ultimately show ?thesis by simp
qed

lemma four_digits:
  assumes "y \<le> (9999::nat)"
  shows "1000 * (y div 1000 mod 10) + 100 * (y div 100 mod 10)
      + 10 * (y div 10 mod 10) + y mod 10 = y"
proof -
  have a: "y div 1000 mod 10 = y div 1000"
    using assms by (simp add: div_less_iff_less_mult)
  have b: "y mod 1000 = 100 * (y div 100 mod 10) + y mod 100"
    using mod_mult2_eq [of y 100 10] by simp
  have c: "y mod 100 = 10 * (y div 10 mod 10) + y mod 10"
    using mod_mult2_eq [of y 10 10] by simp
  have d: "y = 1000 * (y div 1000) + y mod 1000" by simp
  from a b c d show ?thesis by linarith
qed

lemma year_str_four:
  assumes "1000 \<le> y" and "y \<le> 9999"
  shows "year_str y = [digit_char (y div 1000), digit_char (y div 100), digit_char (y div 10), digit_char y]"
proof -
  from assms have "y div 1000 mod 10 \<noteq> 0" by (rule thousands_digit)
  then have "digit_char (y div 1000) \<noteq> CHR ''0''"
    by (simp add: digit_char_zero)
  then show ?thesis
    by (simp add: year_str_def)
qed

lemma re_year_year_str:
  assumes "1000 \<le> y" and "y \<le> 9999"
  shows "re_year (year_str y) = Some y"
proof -
  from assms(2) have "1000 * (y div 1000 mod 10) + 100 * (y div 100 mod 10)
      + 10 * (y div 10 mod 10) + y mod 10 = y"
    by (rule four_digits)
  then show ?thesis
    using assms by (simp add: year_str_four re_year_def is_digit_digit_char digit_value_digit_char)
qed

lemma takeWhile_pad2_slash:
  "takeWhile (\<lambda>c. c \<noteq> CHR ''/'') (pad2 n @ CHR ''/'' # rest) = pad2 n"
  by (simp add: pad2_def digit_char_not_slash)

lemma dropWhile_pad2_slash:
  "dropWhile (\<lambda>c. c \<noteq> CHR ''/'') (pad2 n @ CHR ''/'' # rest) = CHR ''/'' # rest"
  by (simp add: pad2_def digit_char_not_slash)

lemma bill_date_padded:
  assumes "valid_date y m d" and "1000 \<le> y" and "y \<le> 9999"
  shows "bill_date (pad2 m @ ''/'' @ pad2 d @ ''/'' @ year_str y)
           = year_str y @ ''-'' @ pad2 m @ ''-'' @ pad2 d"
proof -
  from assms(1) have m: "1 \<le> m" "m \<le> 12" and d: "1 \<le> d" "d \<le> 31"
    by (auto simp: valid_date_def days_in_month_def split: if_splits)
  have "strptime_mdY (pad2 m @ ''/'' @ pad2 d @ ''/'' @ year_str y)
          = Some \<lparr>year = y, month = m, day = d, hour = 0, minute = 0\<rparr>"
    using assms m d
    by (simp add: strptime_mdY_def Let_def takeWhile_pad2_slash dropWhile_pad2_slash
        re_month_pad2 re_day_pad2 re_year_year_str)
  then show ?thesis
    by (simp add: bill_date_def strftime_Ymd_def)
qed

subsection \<open>Totals and the drop policy on examples\<close>




theorem drop_if_zero_policy_witness:
  "bill_json_to_csv
     \<lparr>cost_barchart = Some \<lparr>categories = Some [''01/02/2024'', ''01/03/2024''],
        bar_series_data = Some [\<lparr>name = ''Electric Charges'', data = [Some 0, Some 5]\<rparr>,
                                \<lparr>name = ''Gas Charges'', data = [None]\<rparr>]\<rparr>\<rparr>
     ''bill_summary.csv'' Map.empty
   = ([''bill_summary.csv'' \<mapsto>
         [[CStr ''Date'', CStr ''Electric Charges'', CStr ''Gas Charges'', CStr ''Total''],
          [CStr ''2024-01-03'', CNum 5, CNum 0, CNum 5]]], 1)
   \<and> json_to_csv
     \<lparr>column_fulldates = Some [''2024-01-02 00:00:00'', ''2024-01-03 00:00:00''],
      series_data = Some [\<lparr>name = ''Electric Charges'', data = [Some 0, Some 5]\<rparr>,
                          \<lparr>name = ''Gas Charges'', data = [None]\<rparr>]\<rparr>
     ''byday_kwh.csv'' Map.empty
   = ([''byday_kwh.csv'' \<mapsto>
         [[CStr ''Date'', CStr ''Electric Charges'', CStr ''Gas Charges'', CStr ''Total''],
          [CStr ''2024-01-02'', CNum 0, CNone, CNum 0],
          [CStr ''2024-01-03'', CNum 5, CNum 0, CNum 5]]], 2)"
proof -
  have r5: "py_round 5 2 = 5" "py_round 5 3 = 5"
    using py_round_of_int [of 5 2] py_round_of_int [of 5 3] by simp_all
  have d3: "bill_date ''01/03/2024'' = ''2024-01-03''"
    using bill_date_padded [of 2024 1 3]
    by (simp add: valid_date_def days_in_month_def pad2_def year_str_def digit_char_def)
  show ?thesis
    using drop_if_zero_policy
      [where cats = "[''01/02/2024'', ''01/03/2024'']"
         and srs = "[\<lparr>name = ''Electric Charges'', data = [Some 0, Some 5]\<rparr>,
                     \<lparr>name = ''Gas Charges'', data = [None]\<rparr>]"
         and ev = "[Some 0, Some 5]" and gv = "[None]"
         and output_path = "''bill_summary.csv''" and fs = Map.empty]
      drop_if_zero_policy
      [where dates = "[''2024-01-02 00:00:00'', ''2024-01-03 00:00:00'']"
         and srs = "[\<lparr>name = ''Electric Charges'', data = [Some 0, Some 5]\<rparr>,
                     \<lparr>name = ''Gas Charges'', data = [None]\<rparr>]"
         and output_path = "''byday_kwh.csv''" and fs = Map.empty]
    by (simp add: by_name_def dict_get_def py_enumerate_def all_zero_at_def value_at_def
        truthy_num_def bill_record_def chart_row_def num_or_zero_def cell_of_value_def
        py_round_zero r5 d3 Let_def)
qed

subsection \<open>Category labels\<close>

lemma hd_split_on: "hd (split_on sep s) = takeWhile (\<lambda>c. c \<noteq> sep) s"
proof (induction s)
  case Nil
  show ?case by simp
next
  case (Cons c s)
  then show ?case
    using split_on_never_empty [of sep s] by (auto split: list.split)
qed

lemma length_filter_enumerate:
  "length (filter (\<lambda>(i, l). P i) (py_enumerate cats)) = length (filter P [0..<length cats])"
proof -
  have "map fst (filter (\<lambda>(i, l). P i) (py_enumerate cats))
          = filter P (map fst (py_enumerate cats))"
    by (simp add: filter_map comp_def case_prod_unfold)
  moreover have "map fst (py_enumerate cats) = [0..<length cats]"
    by (simp add: py_enumerate_def)
  ultimately have "map fst (filter (\<lambda>(i, l). P i) (py_enumerate cats)) = filter P [0..<length cats]"
    by simp
  then show ?thesis
    by (metis length_map)
qed

lemma bill_count_by_index:
  assumes "cats \<noteq> []" and "srs \<noteq> []"
  shows "snd (bill_json_to_csv
               \<lparr>cost_barchart = Some \<lparr>categories = Some cats, bar_series_data = Some srs\<rparr>\<rparr>
               output_path fs)
         = length (filter
             (\<lambda>i. \<not> all_zero_at
                [dict_get (by_name srs) ''Electric Charges'' (replicate (length cats) (Some 0)),
                 dict_get (by_name srs) ''Gas Charges'' (replicate (length cats) (Some 0))] i)
             [0..<length cats])"
  using assms by (simp add: bill_json_to_csv_nonempty length_filter_enumerate)

text \<open>
  Claim C7, as amended. \<^verbatim>\<open>bill_json_to_csv\<close> turns a category label MM/DD/YYYY that
  names a day of the calendar into YYYY-MM-DD, keeps a label that \<^verbatim>\<open>strptime\<close> rejects
  as it is, and never drops a row for its label: whether the row of an index is written
  depends on the two charges alone, so the number of rows is the same for any other
  labels. Categories 01/02/2024 and 01/03/2024 with the series Electric Charges = 1, 2
  give two records dated 2024-01-02 and 2024-01-03 with the totals 1 and 2.
  \<^verbatim>\<open>json_to_csv\<close> parses no date: its date is the label up to the first blank.
\<close>

theorem bill_dates_iso_with_fallback:
  "(valid_date y m d \<and> 1000 \<le> y \<and> y \<le> 9999
      \<longrightarrow> bill_date (pad2 m @ ''/'' @ pad2 d @ ''/'' @ year_str y)
            = year_str y @ ''-'' @ pad2 m @ ''-'' @ pad2 d)
   \<and> (strptime_mdY l = None \<longrightarrow> bill_date l = l)
   \<and> length (bill_row ev gv (i, l)) = length (bill_row ev gv (i, l'))
   \<and> (cats \<noteq> [] \<and> srs \<noteq> [] \<and> length cats' = length cats
      \<longrightarrow> snd (bill_json_to_csv
                 \<lparr>cost_barchart = Some \<lparr>categories = Some cats', bar_series_data = Some srs\<rparr>\<rparr>
                 output_path fs)
          = snd (bill_json_to_csv
                 \<lparr>cost_barchart = Some \<lparr>categories = Some cats, bar_series_data = Some srs\<rparr>\<rparr>
                 output_path fs))
   \<and> bill_json_to_csv
        \<lparr>cost_barchart = Some \<lparr>categories = Some [''01/02/2024'', ''01/03/2024''],
           bar_series_data = Some [\<lparr>name = ''Electric Charges'', data = [Some 1, Some 2]\<rparr>]\<rparr>\<rparr>
        output_path fs
      = (fs(output_path \<mapsto>
            [[CStr ''Date'', CStr ''Electric Charges'', CStr ''Gas Charges'', CStr ''Total''],
             [CStr ''2024-01-02'', CNum 1, CNum 0, CNum 1],
             [CStr ''2024-01-03'', CNum 2, CNum 0, CNum 2]]), 2)
   \<and> hd (chart_row srs (i, hd (split_on CHR '' '' l))) = CStr (takeWhile (\<lambda>c. c \<noteq> CHR '' '') l)"
proof -
  have a: "valid_date y m d \<and> 1000 \<le> y \<and> y \<le> 9999
      \<longrightarrow> bill_date (pad2 m @ ''/'' @ pad2 d @ ''/'' @ year_str y)
            = year_str y @ ''-'' @ pad2 m @ ''-'' @ pad2 d"
    using bill_date_padded [of y m d] by blast
  have b: "strptime_mdY l = None \<longrightarrow> bill_date l = l"
    by (simp add: bill_date_def)
  have c: "length (bill_row ev gv (i, l)) = length (bill_row ev gv (i, l'))"
    by (simp add: bill_row_cases)
  have d: "cats \<noteq> [] \<and> srs \<noteq> [] \<and> length cats' = length cats
      \<longrightarrow> snd (bill_json_to_csv
                 \<lparr>cost_barchart = Some \<lparr>categories = Some cats', bar_series_data = Some srs\<rparr>\<rparr>
                 output_path fs)
          = snd (bill_json_to_csv
                 \<lparr>cost_barchart = Some \<lparr>categories = Some cats, bar_series_data = Some srs\<rparr>\<rparr>
                 output_path fs)"
  proof
    assume h: "cats \<noteq> [] \<and> srs \<noteq> [] \<and> length cats' = length cats"
    then have "cats' \<noteq> []" by auto
    with h show "snd (bill_json_to_csv
                 \<lparr>cost_barchart = Some \<lparr>categories = Some cats', bar_series_data = Some srs\<rparr>\<rparr>
                 output_path fs)
          = snd (bill_json_to_csv
                 \<lparr>cost_barchart = Some \<lparr>categories = Some cats, bar_series_data = Some srs\<rparr>\<rparr>
                 output_path fs)"
      by (simp add: bill_count_by_index)
  qed
  have d2: "bill_date ''01/02/2024'' = ''2024-01-02''"
    using bill_date_padded [of 2024 1 2]
    by (simp add: valid_date_def days_in_month_def pad2_def year_str_def digit_char_def)
  have d3: "bill_date ''01/03/2024'' = ''2024-01-03''"
    using bill_date_padded [of 2024 1 3]
    by (simp add: valid_date_def days_in_month_def pad2_def year_str_def digit_char_def)
  have r: "py_round 1 2 = 1" "py_round 2 2 = 2"
    using py_round_of_int [of 1 2] py_round_of_int [of 2 2] by simp_all
  have e: "bill_json_to_csv
        \<lparr>cost_barchart = Some \<lparr>categories = Some [''01/02/2024'', ''01/03/2024''],
           bar_series_data = Some [\<lparr>name = ''Electric Charges'', data = [Some 1, Some 2]\<rparr>]\<rparr>\<rparr>
        output_path fs
      = (fs(output_path \<mapsto>
            [[CStr ''Date'', CStr ''Electric Charges'', CStr ''Gas Charges'', CStr ''Total''],
             [CStr ''2024-01-02'', CNum 1, CNum 0, CNum 1],
             [CStr ''2024-01-03'', CNum 2, CNum 0, CNum 2]]), 2)"
    by (simp add: bill_json_to_csv_def get_or_empty_def by_name_def dict_get_def py_enumerate_def
        bill_row_def value_at_def truthy_num_def bill_record_def num_or_zero_def
        r d2 d3 Let_def)
  have f: "hd (chart_row srs (i, hd (split_on CHR '' '' l))) = CStr (takeWhile (\<lambda>c. c \<noteq> CHR '' '') l)"
    by (simp add: chart_row_def Let_def hd_split_on)
  from a b c d e f show ?thesis by blast
qed

theorem bill_dates_witness:
  "bill_date ''02/29/2024'' = ''2024-02-29''
   \<and> bill_date ''02/30/2024'' = ''02/30/2024''
   \<and> snd (bill_json_to_csv
        \<lparr>cost_barchart = Some \<lparr>categories = Some [''02/30/2024'', ''no date''],
           bar_series_data = Some [\<lparr>name = ''Gas Charges'', data = [Some 1, Some 2]\<rparr>]\<rparr>\<rparr>
        ''bill_summary.csv'' Map.empty)
     = snd (bill_json_to_csv
        \<lparr>cost_barchart = Some \<lparr>categories = Some [''01/02/2024'', ''01/03/2024''],
           bar_series_data = Some [\<lparr>name = ''Gas Charges'', data = [Some 1, Some 2]\<rparr>]\<rparr>\<rparr>
        ''bill_summary.csv'' Map.empty)"
proof -
  have v: "valid_date 2024 2 29 \<and> (1000::nat) \<le> 2024 \<and> (2024::nat) \<le> 9999"
    by (simp add: valid_date_def days_in_month_def is_leap_def)
  have n: "strptime_mdY ''02/30/2024'' = None"
    by (simp add: strptime_mdY_def re_month_def re_day_def re_year_def is_digit_def
        digit_value_def valid_date_def days_in_month_def is_leap_def)
  have p: "pad2 2 @ ''/'' @ pad2 29 @ ''/'' @ year_str 2024 = ''02/29/2024''"
      "year_str 2024 @ ''-'' @ pad2 2 @ ''-'' @ pad2 29 = ''2024-02-29''"
    by (simp_all add: pad2_def year_str_def digit_char_def)
  show ?thesis
    using v n p
      bill_dates_iso_with_fallback
        [where y = 2024 and m = 2 and d = 29 and l = "''02/30/2024''"
           and cats = "[''01/02/2024'', ''01/03/2024'']" and cats' = "[''02/30/2024'', ''no date'']"
           and srs = "[\<lparr>name = ''Gas Charges'', data = [Some 1, Some 2]\<rparr>]"
           and output_path = "''bill_summary.csv''" and fs = Map.empty]
    by simp
qed

text \<open>
  The claim as stated fails on its own example: with the labels 01/02/2024 and
  01/03/2024 and the series A = 1, 2, \<^verbatim>\<open>json_to_csv\<close> writes the labels as they
  are, not as ISO dates, and \<^verbatim>\<open>bill_json_to_csv\<close>, which reads only the electric and
  the gas charges, writes no record at all. And where a label has a blank,
  \<^verbatim>\<open>json_to_csv\<close> writes neither an ISO date nor the label unchanged.
\<close>

theorem series_dates_counterexample:
  "json_to_csv
     \<lparr>column_fulldates = Some [''01/02/2024'', ''01/03/2024''],
      series_data = Some [\<lparr>name = ''A'', data = [Some 1, Some 2]\<rparr>]\<rparr>
     ''out.csv'' Map.empty
   = ([''out.csv'' \<mapsto>
         [[CStr ''Date'', CStr ''A'', CStr ''Total''],
          [CStr ''01/02/2024'', CNum 1, CNum 1],
          [CStr ''01/03/2024'', CNum 2, CNum 2]]], 2)
   \<and> bill_json_to_csv
     \<lparr>cost_barchart = Some \<lparr>categories = Some [''01/02/2024'', ''01/03/2024''],
        bar_series_data = Some [\<lparr>name = ''A'', data = [Some 1, Some 2]\<rparr>]\<rparr>\<rparr>
     ''out.csv'' Map.empty
   = ([''out.csv'' \<mapsto>
         [[CStr ''Date'', CStr ''Electric Charges'', CStr ''Gas Charges'', CStr ''Total'']]], 0)
   \<and> json_to_csv
     \<lparr>column_fulldates = Some [''Jan 2, 2024''],
      series_data = Some [\<lparr>name = ''A'', data = [Some 1]\<rparr>]\<rparr>
     ''out.csv'' Map.empty
   = ([''out.csv'' \<mapsto>
         [[CStr ''Date'', CStr ''A'', CStr ''Total''],
          [CStr ''Jan'', CNum 1, CNum 1]]], 1)"
proof -
  have r: "py_round 1 3 = 1" "py_round 2 3 = 2"
    using py_round_of_int [of 1 3] py_round_of_int [of 2 3] by simp_all
  show ?thesis
    by (simp add: json_to_csv_def bill_json_to_csv_def get_or_empty_def py_enumerate_def
        chart_row_def value_at_def num_or_zero_def cell_of_value_def r Let_def
        by_name_def dict_get_def bill_row_def truthy_num_def)
qed

section \<open>Properties of the interval normalizer\<close>

lemma interval_rows_well_formed:
  "interval_rows iv = (if well_formed iv then [interval_row_of iv] else [])"
  by (cases "last_request_timestamp iv") (auto simp: interval_rows_def well_formed_def)

lemma concat_interval_rows:
  "concat (map interval_rows ivs) = map interval_row_of (filter well_formed ivs)"
  by (induction ivs) (simp_all add: interval_rows_well_formed)

lemma sorted_interval_rows_strict:
  assumes "distinct (map unix_ms (map interval_row_of (filter well_formed ivs)))"
  shows "sorted_wrt (<) (map unix_ms (sorted_interval_rows ivs))"
proof -
  have "mset (sorted_interval_rows ivs) = mset (map interval_row_of (filter well_formed ivs))"
    by (simp add: sorted_interval_rows_def concat_interval_rows)
  then have "mset (map unix_ms (sorted_interval_rows ivs))
          = mset (map unix_ms (map interval_row_of (filter well_formed ivs)))"
    by (metis mset_map)
  with assms have "distinct (map unix_ms (sorted_interval_rows ivs))"
    by (metis mset_eq_imp_distinct_iff)
  moreover have "sorted (map unix_ms (sorted_interval_rows ivs))"
    by (simp add: sorted_interval_rows_def)
  ultimately show ?thesis
    by (simp add: strict_sorted_iff)
qed

text \<open>
  Claim C4, as amended. For every list of interval items in any order, the rows of
  \<^verbatim>\<open>intervals_to_csv\<close> are in ascending order of the epoch field: strictly when the
  epochs of the rows are distinct, otherwise not, for rows with the same epoch are all
  kept, in the order of the input. The rows are, as a multiset, the rows of the
  well-formed items: an item is left out exactly when its timestamp is absent, null or
  empty, or its epoch or its amount is absent or null. The file holds the header and
  these rows, and the number returned is the number of well-formed items.
\<close>

theorem intervals_sorted_and_filtered:
  "sorted (map unix_ms (sorted_interval_rows ivs))
   \<and> (distinct (map unix_ms (map interval_row_of (filter well_formed ivs)))
        \<longrightarrow> sorted_wrt (<) (map unix_ms (sorted_interval_rows ivs)))
   \<and> mset (sorted_interval_rows ivs) = mset (map interval_row_of (filter well_formed ivs))
   \<and> filter (\<lambda>r. unix_ms r = k) (sorted_interval_rows ivs)
       = filter (\<lambda>r. unix_ms r = k) (map interval_row_of (filter well_formed ivs))
   \<and> (interval_rows iv = [] \<longleftrightarrow> \<not> well_formed iv)
   \<and> (interval_rows iv = [interval_row_of iv] \<longleftrightarrow> well_formed iv)
   \<and> intervals_to_csv ivs output_path fs
       = (fs(output_path \<mapsto>
              [CStr ''DateTime'', CStr ''kWh'', CStr ''rate_level'', CStr ''unix_ms'']
              # map interval_cells (sorted_interval_rows ivs)),
          length (filter well_formed ivs))"
proof -
  have s: "sorted (map unix_ms (sorted_interval_rows ivs))"
    by (simp add: sorted_interval_rows_def)
  have d: "distinct (map unix_ms (map interval_row_of (filter well_formed ivs)))
        \<longrightarrow> sorted_wrt (<) (map unix_ms (sorted_interval_rows ivs))"
    using sorted_interval_rows_strict [of ivs] by blast
  have m: "mset (sorted_interval_rows ivs) = mset (map interval_row_of (filter well_formed ivs))"
    by (simp add: sorted_interval_rows_def concat_interval_rows)
  have st: "filter (\<lambda>r. unix_ms r = k) (sorted_interval_rows ivs)
       = filter (\<lambda>r. unix_ms r = k) (map interval_row_of (filter well_formed ivs))"
    by (simp add: sorted_interval_rows_def concat_interval_rows sort_key_stable)
  have e: "interval_rows iv = [] \<longleftrightarrow> \<not> well_formed iv"
    by (simp add: interval_rows_well_formed)
  have k: "interval_rows iv = [interval_row_of iv] \<longleftrightarrow> well_formed iv"
    by (simp add: interval_rows_well_formed)
  have "length (sorted_interval_rows ivs) = length (filter well_formed ivs)"
    by (simp add: sorted_interval_rows_def concat_interval_rows)
  then have f: "intervals_to_csv ivs output_path fs
       = (fs(output_path \<mapsto>
              [CStr ''DateTime'', CStr ''kWh'', CStr ''rate_level'', CStr ''unix_ms'']
              # map interval_cells (sorted_interval_rows ivs)),
          length (filter well_formed ivs))"
    by (simp add: intervals_to_csv_def Let_def)
  from s d m st e k f show ?thesis by blast
qed

theorem intervals_sorted_witness:
  "sorted_wrt (<) (map unix_ms (sorted_interval_rows
        [\<lparr>last_request_timestamp = Some ''2/26/2026 8:45 AM'',
          last_request_unix_timestamp = Some 1772095500,
          odr_amt = Some (1 / 2), rate_level = Some ''On Peak''\<rparr>,
         \<lparr>last_request_timestamp = Some ''2/26/2026 8:15 AM'',
          last_request_unix_timestamp = None,
          odr_amt = Some 1, rate_level = Some ''On Peak''\<rparr>,
         \<lparr>last_request_timestamp = Some ''2/26/2026 8:30 AM'',
          last_request_unix_timestamp = Some 1772094600,
          odr_amt = Some (1 / 4), rate_level = None\<rparr>]))
   \<and> map unix_ms (sorted_interval_rows
        [\<lparr>last_request_timestamp = Some ''2/26/2026 8:45 AM'',
          last_request_unix_timestamp = Some 1772095500,
          odr_amt = Some (1 / 2), rate_level = Some ''On Peak''\<rparr>,
         \<lparr>last_request_timestamp = Some ''2/26/2026 8:15 AM'',
          last_request_unix_timestamp = None,
          odr_amt = Some 1, rate_level = Some ''On Peak''\<rparr>,
         \<lparr>last_request_timestamp = Some ''2/26/2026 8:30 AM'',
          last_request_unix_timestamp = Some 1772094600,
          odr_amt = Some (1 / 4), rate_level = None\<rparr>])
     = [1772094600000, 1772095500000]"
  using intervals_sorted_and_filtered [of
        "[\<lparr>last_request_timestamp = Some ''2/26/2026 8:45 AM'',
          last_request_unix_timestamp = Some 1772095500,
          odr_amt = Some (1 / 2), rate_level = Some ''On Peak''\<rparr>,
         \<lparr>last_request_timestamp = Some ''2/26/2026 8:15 AM'',
          last_request_unix_timestamp = None,
          odr_amt = Some 1, rate_level = Some ''On Peak''\<rparr>,
         \<lparr>last_request_timestamp = Some ''2/26/2026 8:30 AM'',
          last_request_unix_timestamp = Some 1772094600,
          odr_amt = Some (1 / 4), rate_level = None\<rparr>]"]
  by (simp add: sorted_interval_rows_def interval_rows_well_formed well_formed_def
      interval_row_of_def)

text \<open>
  The claim as stated fails for two well-formed readings with the same epoch: both are
  kept, so the epochs of the rows are not strictly ascending.
\<close>

theorem intervals_strict_counterexample:
  "\<not> sorted_wrt (<) (map unix_ms (sorted_interval_rows
        [\<lparr>last_request_timestamp = Some ''2/26/2026 8:30 AM'',
          last_request_unix_timestamp = Some 1772094600,
          odr_amt = Some (1 / 4), rate_level = Some ''On Peak''\<rparr>,
         \<lparr>last_request_timestamp = Some ''2/26/2026 8:30 AM'',
          last_request_unix_timestamp = Some 1772094600,
          odr_amt = Some (1 / 2), rate_level = Some ''On Peak''\<rparr>]))"
  by (simp add: sorted_interval_rows_def interval_rows_well_formed well_formed_def interval_row_of_def)

section \<open>Properties of the fetch\<close>



section \<open>Properties of the amount parser\<close>





section \<open>Properties of the chart normalizer: the file\<close>

text \<open>
  Claim C10. When the payload has no dates or no series, \<^verbatim>\<open>json_to_csv\<close> returns 0 and
  the files are as they were: the output file is neither created nor changed. Otherwise
  the output file holds the header and one row for each date, whatever it held before,
  no other file is touched, and the number returned is the number of dates.
\<close>

theorem json_to_csv_frame:
  "(get_or_empty (column_fulldates payload) = [] \<or> get_or_empty (series_data payload) = []
      \<longrightarrow> json_to_csv payload output_path fs = (fs, 0))
   \<and> (get_or_empty (column_fulldates payload) \<noteq> [] \<and> get_or_empty (series_data payload) \<noteq> []
      \<longrightarrow> snd (json_to_csv payload output_path fs) = length (get_or_empty (column_fulldates payload))
        \<and> (\<exists>header rows. fst (json_to_csv payload output_path fs) output_path = Some (header # rows)
              \<and> length rows = length (get_or_empty (column_fulldates payload))
              \<and> fst (json_to_csv payload output_path fs') output_path = Some (header # rows))
        \<and> (\<forall>other. other \<noteq> output_path
              \<longrightarrow> fst (json_to_csv payload output_path fs) other = fs other))"
  by (simp add: json_to_csv_def Let_def py_enumerate_def)

theorem json_to_csv_frame_witness:
  "json_to_csv \<lparr>column_fulldates = Some [], series_data = Some [\<lparr>name = ''On Peak'', data = [Some 1]\<rparr>]\<rparr>
       ''byday_kwh.csv'' [''byday_kwh.csv'' \<mapsto> [[CStr ''old'']]]
     = ([''byday_kwh.csv'' \<mapsto> [[CStr ''old'']]], 0)
   \<and> snd (json_to_csv \<lparr>column_fulldates = Some [''2024-01-02 00:00:00'', ''2024-01-03 00:00:00''],
                         series_data = Some [\<lparr>name = ''On Peak'', data = [Some 1, None]\<rparr>]\<rparr>
        ''byday_kwh.csv'' [''byday_kwh.csv'' \<mapsto> [[CStr ''old'']]]) = 2
   \<and> fst (json_to_csv \<lparr>column_fulldates = Some [''2024-01-02 00:00:00'', ''2024-01-03 00:00:00''],
                         series_data = Some [\<lparr>name = ''On Peak'', data = [Some 1, None]\<rparr>]\<rparr>
        ''byday_kwh.csv'' [''byday_kwh.csv'' \<mapsto> [[CStr ''old'']]]) ''other.csv'' = None"
  using json_to_csv_frame [of "\<lparr>column_fulldates = Some [], series_data = Some [\<lparr>name = ''On Peak'', data = [Some 1]\<rparr>]\<rparr>"
       "''byday_kwh.csv''" "[''byday_kwh.csv'' \<mapsto> [[CStr ''old'']]]"]
     json_to_csv_frame [of "\<lparr>column_fulldates = Some [''2024-01-02 00:00:00'', ''2024-01-03 00:00:00''],
                         series_data = Some [\<lparr>name = ''On Peak'', data = [Some 1, None]\<rparr>]\<rparr>"
       "''byday_kwh.csv''" "[''byday_kwh.csv'' \<mapsto> [[CStr ''old'']]]"]
  by (simp add: get_or_empty_def)

end
